theory Spec2Isabelle
  imports Main "HOL-Library.Sublist" "HOL-Library.Char_ord" "HOL-Library.List_Lexorder"
    "HOL-Library.Multiset"
begin

section \<open>Wedding gallery uploader: a model of \<^verbatim>\<open>app.py\<close>\<close>

text \<open>
  The application is one Python module. Its own functions are translated below, each
  under the name it has in the source. What the module gets from libraries
  (\<^verbatim>\<open>ipaddress\<close>, \<^verbatim>\<open>magic\<close>, \<^verbatim>\<open>PIL\<close>, \<^verbatim>\<open>werkzeug\<close>, \<^verbatim>\<open>uuid\<close>, the file system) is not
  part of the module: those calls are parameters of the model, and an exception they
  raise is a value of type \<open>exn\<close>.

  A Python \<^verbatim>\<open>str\<close> is a \<open>string\<close>, one \<open>char\<close> per code point below 256. Header
  values reach the module decoded that way, and sanitised file names are ASCII.
\<close>

subsection \<open>Python strings\<close>

datatype exn =
  IndexError | FileNotFoundError | PermissionError | ValueError | OSError | OtherError string

text \<open>\<^verbatim>\<open>xs[i]\<close> for a non-negative index: IndexError out of range.\<close>

definition py_index :: "'a list \<Rightarrow> nat \<Rightarrow> exn + 'a" where
  "py_index xs i = (if i < length xs then Inr (xs ! i) else Inl IndexError)"

text \<open>\<^verbatim>\<open>str.lower\<close> on code points below 256: A-Z, and the Latin-1 capitals but the
  multiplication sign, move up by 32.\<close>

definition lower_char :: "char \<Rightarrow> char" where
  "lower_char c =
     (let n = (of_char c :: nat)
      in if (65 \<le> n \<and> n \<le> 90) \<or> (192 \<le> n \<and> n \<le> 222 \<and> n \<noteq> 215)
         then char_of (n + 32) else c)"

definition lower :: "string \<Rightarrow> string" where
  "lower s = map lower_char s"

text \<open>\<^verbatim>\<open>str.isspace\<close> on one code point below 256, as \<^verbatim>\<open>str.strip()\<close> uses it.\<close>

definition is_space :: "char \<Rightarrow> bool" where
  "is_space c =
     (let n = (of_char c :: nat)
      in (9 \<le> n \<and> n \<le> 13) \<or> (28 \<le> n \<and> n \<le> 32) \<or> n = 133 \<or> n = 160)"

definition strip :: "string \<Rightarrow> string" where
  "strip s = rev (dropWhile is_space (rev (dropWhile is_space s)))"

text \<open>\<^verbatim>\<open>s.split(c)\<close> for a separator of one character: never an empty list.\<close>

fun split :: "char \<Rightarrow> string \<Rightarrow> string list" where
  "split c [] = [[]]"
| "split c (x # xs) =
     (if x = c then [] # split c xs
      else (case split c xs of
              [] \<Rightarrow> [[x]]
            | w # ws \<Rightarrow> (x # w) # ws))"

text \<open>\<^verbatim>\<open>s.rsplit(c, 1)\<close>: cut at the last \<open>c\<close>, or the whole string alone.\<close>

definition rsplit1 :: "char \<Rightarrow> string \<Rightarrow> string list" where
  "rsplit1 c s =
     (if c \<in> set s
      then [rev (drop 1 (dropWhile (\<lambda>x. x \<noteq> c) (rev s))),
            rev (takeWhile (\<lambda>x. x \<noteq> c) (rev s))]
      else [s])"

definition startswith :: "string \<Rightarrow> string \<Rightarrow> bool" where
  "startswith s p = prefix p s"

text \<open>\<^verbatim>\<open>s.replace(old, new)\<close> for a non-empty \<open>old\<close>: every occurrence, left to right.\<close>

function replace :: "string \<Rightarrow> string \<Rightarrow> string \<Rightarrow> string" where
  "replace old new [] = []"
| "replace old new (x # xs) =
     (if old \<noteq> [] \<and> prefix old (x # xs)
      then new @ replace old new (drop (length old) (x # xs))
      else x # replace old new xs)"
  by pat_completeness auto
termination
  by (relation "measure (\<lambda>(old, new, s). length s)") (auto simp: neq_Nil_conv)

subsection \<open>Application configuration\<close>

definition ALLOWED_EXTENSIONS :: "string set" where
  "ALLOWED_EXTENSIONS =
     {''png'', ''jpg'', ''jpeg'', ''gif'', ''mp4'', ''mov'', ''avi'', ''mkv'', ''webm''}"

definition ALLOWED_MIMETYPES :: "string set" where
  "ALLOWED_MIMETYPES =
     {''image/png'', ''image/jpeg'', ''image/jpg'', ''image/gif'',
      ''video/mp4'', ''video/quicktime'', ''video/x-msvideo'', ''video/x-matroska'',
      ''video/webm''}"

definition MAX_FILES_PER_REQUEST :: nat where
  "MAX_FILES_PER_REQUEST = 10"

definition THUMBNAIL_SIZE :: "int \<times> int" where
  "THUMBNAIL_SIZE = (300, 300)"

subsection \<open>Utility functions\<close>

text \<open>
  \<^verbatim>\<open>'.' in filename and filename.rsplit('.', 1)[1].lower() in ALLOWED_EXTENSIONS\<close>.
  The index is evaluated only after the test for a dot; an IndexError it raised would
  leave the function.
\<close>

definition allowed_file :: "string \<Rightarrow> exn + bool" where
  "allowed_file filename =
     (if CHR ''.'' \<in> set filename
      then (case py_index (rsplit1 CHR ''.'' filename) 1 of
              Inl e \<Rightarrow> Inl e
            | Inr ext \<Rightarrow> Inr (lower ext \<in> ALLOWED_EXTENSIONS))
      else Inr False)"

text \<open>\<^verbatim>\<open>get_file_type\<close> indexes the split without a test for a dot.\<close>

definition get_file_type :: "string \<Rightarrow> exn + string" where
  "get_file_type filename =
     (case py_index (rsplit1 CHR ''.'' filename) 1 of
        Inl e \<Rightarrow> Inl e
      | Inr ext \<Rightarrow>
          (let extension = lower ext
           in if extension \<in> {''png'', ''jpg'', ''jpeg'', ''gif''} then Inr ''image''
              else if extension \<in> {''mp4'', ''mov'', ''avi'', ''mkv'', ''webm''} then Inr ''video''
              else Inr ''unknown''))"

subsection \<open>Client IP resolver\<close>

text \<open>
  \<^verbatim>\<open>ipaddress.ip_address\<close> is the library's parser: it returns an IPv4 or an IPv6
  address object, or raises. The resolver reads \<^verbatim>\<open>version\<close> of the object and, of an
  IPv6 address, \<^verbatim>\<open>compressed\<close>.
\<close>

datatype ip_addr = IPv4Address | IPv6Address (compressed: string)

fun version :: "ip_addr \<Rightarrow> nat" where
  "version IPv4Address = 4"
| "version (IPv6Address c) = 6"

type_synonym ip_parser = "string \<Rightarrow> exn + ip_addr"

record request =
  headers :: "string \<rightharpoonup> string"
  remote_addr :: "string option"

text \<open>The nested helpers; a bare \<^verbatim>\<open>except:\<close> turns every exception into the fallback.\<close>

definition is_ipv6 :: "ip_parser \<Rightarrow> string \<Rightarrow> bool" where
  "is_ipv6 ip_address ip_str =
     (case ip_address ip_str of
        Inr addr \<Rightarrow> version addr = 6
      | Inl e \<Rightarrow> False)"

definition simplify_ipv6 :: "ip_parser \<Rightarrow> string \<Rightarrow> string" where
  "simplify_ipv6 ip_address ip_str =
     (case ip_address ip_str of
        Inr addr \<Rightarrow>
          if version addr = 6
          then (if startswith ip_str ''::ffff:'' then replace ''::ffff:'' [] ip_str
                else compressed addr)
          else ip_str
      | Inl e \<Rightarrow> ip_str)"

text \<open>The two \<^verbatim>\<open>for\<close> loops of \<^verbatim>\<open>extract_best_ip\<close>; \<open>None\<close> when a loop ends without
  \<^verbatim>\<open>return\<close>.\<close>

fun first_pass :: "ip_parser \<Rightarrow> string list \<Rightarrow> string option" where
  "first_pass ip_address [] = None"
| "first_pass ip_address (ip # ips) =
     (if ip \<noteq> [] \<and> \<not> is_ipv6 ip_address ip then Some ip
      else first_pass ip_address ips)"

fun second_pass :: "ip_parser \<Rightarrow> string list \<Rightarrow> string option" where
  "second_pass ip_address [] = None"
| "second_pass ip_address (ip # ips) =
     (if ip \<noteq> [] then Some (simplify_ipv6 ip_address ip)
      else second_pass ip_address ips)"

definition extract_best_ip :: "ip_parser \<Rightarrow> string \<Rightarrow> string" where
  "extract_best_ip ip_address ip_list =
     (if ip_list = [] then ''unknown''
      else (let ips = map strip (split CHR '','' ip_list)
            in case first_pass ip_address ips of
                 Some ip \<Rightarrow> ip
               | None \<Rightarrow>
                   (case second_pass ip_address ips of
                      Some ip \<Rightarrow> ip
                    | None \<Rightarrow> ''unknown'')))"

text \<open>\<^verbatim>\<open>if x: A(x) else: B\<close> for an optional string: \<^verbatim>\<open>None\<close> and the empty string
  are false.\<close>

definition when_truthy :: "string option \<Rightarrow> (string \<Rightarrow> 'a) \<Rightarrow> 'a \<Rightarrow> 'a" where
  "when_truthy x A B = (case x of None \<Rightarrow> B | Some s \<Rightarrow> if s = [] then B else A s)"

definition pseudo_ipv4_prefixes :: "string list" where
  "pseudo_ipv4_prefixes =
     [''240.'', ''241.'', ''242.'', ''243.'', ''244.'', ''245.'', ''246.'', ''247.'',
      ''248.'', ''249.'', ''250.'', ''251.'', ''252.'', ''253.'', ''254.'', ''255.'']"

text \<open>
  \<^verbatim>\<open>get_real_client_ip\<close> returns the address; the line it writes to the debug log is
  the second component.
\<close>

definition get_real_client_ip :: "ip_parser \<Rightarrow> request \<Rightarrow> string \<times> string" where
  "get_real_client_ip ip_address req =
     (let cf_ipv6 = headers req ''CF-Connecting-IPv6'';
          cf_pseudo_ipv4 = headers req ''CF-Pseudo-IPv4''
      in when_truthy cf_ipv6
           (\<lambda>cf_ipv6.
              let result = simplify_ipv6 ip_address cf_ipv6
              in (result,
                  when_truthy cf_pseudo_ipv4
                    (\<lambda>cf_pseudo_ipv4.
                       ''[IP Detection] CF-Connecting-IPv6: '' @ cf_ipv6 @ '' -> '' @ result
                       @ '' (Pseudo IPv4: '' @ cf_pseudo_ipv4 @ '')'')
                    (''[IP Detection] CF-Connecting-IPv6: '' @ cf_ipv6 @ '' -> '' @ result)))
        (when_truthy (headers req ''CF-Connecting-IP'')
           (\<lambda>cf_ip.
              let result = extract_best_ip ip_address cf_ip
              in (result,
                  if list_ex (startswith result) pseudo_ipv4_prefixes
                  then ''[IP Detection] CF-Connecting-IP: '' @ cf_ip
                       @ '' (Pseudo IPv4 - real IPv6 not provided)''
                  else ''[IP Detection] CF-Connecting-IP: '' @ cf_ip @ '' -> '' @ result))
        (when_truthy (headers req ''X-Forwarded-For'')
           (\<lambda>x_forwarded.
              let result = extract_best_ip ip_address x_forwarded
              in (result, ''[IP Detection] X-Forwarded-For: '' @ x_forwarded @ '' -> '' @ result))
        (when_truthy (headers req ''X-Real-IP'')
           (\<lambda>x_real_ip.
              let result = extract_best_ip ip_address x_real_ip
              in (result, ''[IP Detection] X-Real-IP: '' @ x_real_ip @ '' -> '' @ result))
        (when_truthy (remote_addr req)
           (\<lambda>client_ip.
              let result = simplify_ipv6 ip_address client_ip
              in (result, ''[IP Detection] Direct connection: '' @ client_ip @ '' -> '' @ result))
           (''unknown'', ''[IP Detection] No IP found, returning unknown''))))))"


text \<open>
  The sources of an address in the order the resolver names them, and what a request
  carries for each. A source is present when its value is a non-empty string.
\<close>

datatype source = CF_Connecting_IPv6 | CF_Connecting_IP | X_Forwarded_For | X_Real_IP | Socket_Address

definition priority_order :: "source list" where
  "priority_order =
     [CF_Connecting_IPv6, CF_Connecting_IP, X_Forwarded_For, X_Real_IP, Socket_Address]"

fun source_value :: "request \<Rightarrow> source \<Rightarrow> string option" where
  "source_value req CF_Connecting_IPv6 = headers req ''CF-Connecting-IPv6''"
| "source_value req CF_Connecting_IP = headers req ''CF-Connecting-IP''"
| "source_value req X_Forwarded_For = headers req ''X-Forwarded-For''"
| "source_value req X_Real_IP = headers req ''X-Real-IP''"
| "source_value req Socket_Address = remote_addr req"

fun is_list_source :: "source \<Rightarrow> bool" where
  "is_list_source CF_Connecting_IPv6 = False"
| "is_list_source CF_Connecting_IP = True"
| "is_list_source X_Forwarded_For = True"
| "is_list_source X_Real_IP = True"
| "is_list_source Socket_Address = False"

definition present :: "string option \<Rightarrow> bool" where
  "present x = (case x of None \<Rightarrow> False | Some s \<Rightarrow> s \<noteq> [])"

text \<open>The entries of a comma-separated list: stripped, the empty ones left out.\<close>

definition list_entries :: "string \<Rightarrow> string list" where
  "list_entries s = filter (\<lambda>e. e \<noteq> []) (map strip (split CHR '','' s))"

text \<open>
  The resolver as a specification: the first present source in priority order decides.
  A list source gives its first entry that is not an IPv6 address, else its first entry
  simplified, else \<open>unknown\<close>; the other sources give their value simplified.
\<close>

definition spec_list_choice :: "ip_parser \<Rightarrow> string \<Rightarrow> string" where
  "spec_list_choice ip_address s =
     (case find (\<lambda>e. \<not> is_ipv6 ip_address e) (list_entries s) of
        Some e \<Rightarrow> e
      | None \<Rightarrow>
          (case list_entries s of
             [] \<Rightarrow> ''unknown''
           | e # es \<Rightarrow> simplify_ipv6 ip_address e))"


text \<open>What \<^verbatim>\<open>ipaddress.ip_address\<close> returns on the strings of the examples below.\<close>

definition sample_ip_address :: ip_parser where
  "sample_ip_address s =
     (if s = ''203.0.113.9'' then Inr IPv4Address
      else if s = ''2001:db8::1'' then Inr (IPv6Address ''2001:db8::1'')
      else if s = ''2001:0db8:0000:0000:0000:0000:0000:0001'' then Inr (IPv6Address ''2001:db8::1'')
      else if s = ''::ffff:203.0.113.5'' then Inr (IPv6Address ''::ffff:203.0.113.5'')
      else Inl ValueError)"


subsection \<open>Files and library calls\<close>

text \<open>
  A folder is flat: file name to content. The upload folder holds bytes; the calls that
  read a file get its bytes, and FileNotFoundError when it is missing.
\<close>

type_synonym bytes = string

type_synonym folder = "string \<rightharpoonup> bytes"

definition with_file :: "folder \<Rightarrow> string \<Rightarrow> (bytes \<Rightarrow> exn + 'a) \<Rightarrow> exn + 'a" where
  "with_file dir path read = (case dir path of None \<Rightarrow> Inl FileNotFoundError | Some b \<Rightarrow> read b)"

definition os_path_exists :: "('k \<rightharpoonup> 'v) \<Rightarrow> 'k \<Rightarrow> bool" where
  "os_path_exists dir path = (dir path \<noteq> None)"

text \<open>
  \<^verbatim>\<open>os.remove(path)\<close>: FileNotFoundError when the file is missing. On a file that is
  there the system may still refuse (a file in use, a directory that may not be written);
  \<open>raises path\<close> is the exception it raises then, if any.
\<close>

definition os_remove ::
  "(string \<Rightarrow> exn option) \<Rightarrow> (string \<rightharpoonup> 'v) \<Rightarrow> string \<Rightarrow> exn + (string \<rightharpoonup> 'v)" where
  "os_remove raises dir path =
     (if \<not> os_path_exists dir path then Inl FileNotFoundError
      else (case raises path of
              Some e \<Rightarrow> Inl e
            | None \<Rightarrow> Inr (dir(path := None))))"

definition bind_exn :: "exn + 'a \<Rightarrow> ('a \<Rightarrow> exn + 'b) \<Rightarrow> exn + 'b" where
  "bind_exn m f = (case m of Inl e \<Rightarrow> Inl e | Inr x \<Rightarrow> f x)"

text \<open>A werkzeug \<^verbatim>\<open>FileStorage\<close>: the client's file name and the bytes sent.\<close>

record upfile =
  fs_filename :: string
  fs_stream :: bytes

text \<open>\<^verbatim>\<open>file.save(path)\<close> writes the stream, or raises and leaves at the path nothing
  new (\<open>None\<close>) or a part of the stream.\<close>

datatype save_result = Saved | SaveFailed exn "bytes option"

text \<open>Images as PIL handles them: mode, size, and the pixels as the history of the
  calls that made them.\<close>

type_synonym size = "int \<times> int"

datatype picture =
    Decoded bytes
  | Blank string size "int \<times> int \<times> int"
  | Converted string picture
  | Pasted picture picture "(int \<times> int) option" "picture option"
  | LastBand picture
  | Thumbnailed size picture

record image =
  mode :: string
  size_px :: size
  pixels :: picture

datatype pil_call =
    Call_convert image string
  | Call_split image
  | Call_paste image image
  | Call_thumbnail image size
  | Call_save image string

text \<open>What \<^verbatim>\<open>Image.save\<close> writes: the format and encoder options it was given, and
  the image.\<close>

record saved_image =
  format :: string
  quality :: int
  optimize :: bool
  picture :: image

text \<open>
  The library calls the module makes, as functions of what they read:
  \<^item> \<open>secure_filename\<close> is werkzeug's sanitiser; \<open>uuid4_hex n\<close> the value of the \<open>n\<close>-th
    \<^verbatim>\<open>uuid.uuid4().hex\<close>; \<open>file_save\<close> the outcome of \<^verbatim>\<open>file.save\<close> to a name;
    \<open>remove_raises\<close> the exception of \<^verbatim>\<open>os.remove\<close> on a file of the upload folder;
  \<^item> \<open>magic_from_file\<close> is \<^verbatim>\<open>magic.from_file(path, mime=True)\<close> on a file with these
    bytes; \<open>image_verify\<close> is \<^verbatim>\<open>Image.open(path)\<close> followed by \<^verbatim>\<open>img.verify()\<close>;
    \<open>md5_file\<close> is reading the file and hashing it;
  \<^item> \<open>pil_decode\<close> is \<^verbatim>\<open>Image.open\<close>, giving mode and size; \<open>pil_raises\<close> tells
    whether a later PIL call raises; \<open>thumbnail_size s box\<close> is the size
    \<^verbatim>\<open>Image.thumbnail(box)\<close> gives an image of size \<open>s\<close>;
  \<^item> \<open>strftime_minute\<close> is \<^verbatim>\<open>datetime.fromtimestamp(t).strftime('%Y-%m-%d %H:%M')\<close>.
\<close>

record libs =
  secure_filename :: "string \<Rightarrow> string"
  uuid4_hex :: "nat \<Rightarrow> string"
  file_save :: "upfile \<Rightarrow> string \<Rightarrow> save_result"
  remove_raises :: "string \<Rightarrow> exn option"
  magic_from_file :: "bytes \<Rightarrow> exn + string"
  image_verify :: "bytes \<Rightarrow> exn + unit"
  md5_file :: "bytes \<Rightarrow> exn + string"
  pil_decode :: "bytes \<Rightarrow> exn + string \<times> size"
  pil_raises :: "pil_call \<Rightarrow> exn option"
  thumbnail_size :: "size \<Rightarrow> size \<Rightarrow> size"
  strftime_minute :: "int \<Rightarrow> string"

subsection \<open>File validation\<close>

text \<open>
  \<^verbatim>\<open>validate_file_content\<close>: both \<^verbatim>\<open>except Exception\<close> clauses return \<^verbatim>\<open>False\<close>. The
  log lines are left out.
\<close>

definition validate_file_content :: "libs \<Rightarrow> folder \<Rightarrow> string \<Rightarrow> string \<Rightarrow> bool" where
  "validate_file_content L dir file_path filename =
     (case with_file dir file_path (magic_from_file L) of
        Inl e \<Rightarrow> False
      | Inr mime_type \<Rightarrow>
          if mime_type \<notin> ALLOWED_MIMETYPES then False
          else if startswith mime_type ''image/''
          then (case with_file dir file_path (image_verify L) of
                  Inl e \<Rightarrow> False
                | Inr u \<Rightarrow> True)
          else if startswith mime_type ''video/'' then True
          else False)"

definition get_file_hash :: "libs \<Rightarrow> folder \<Rightarrow> string \<Rightarrow> exn + string" where
  "get_file_hash L dir file_path = with_file dir file_path (md5_file L)"


subsection \<open>Thumbnails\<close>

text \<open>The PIL calls of \<^verbatim>\<open>create_thumbnail\<close>. Each may raise; otherwise mode and size of
  the result are what PIL documents for the call.\<close>

definition Image_open :: "libs \<Rightarrow> bytes \<Rightarrow> exn + image" where
  "Image_open L b =
     (case pil_decode L b of
        Inl e \<Rightarrow> Inl e
      | Inr (m, s) \<Rightarrow> Inr \<lparr>mode = m, size_px = s, pixels = Decoded b\<rparr>)"

definition Image_new :: "string \<Rightarrow> size \<Rightarrow> int \<times> int \<times> int \<Rightarrow> image" where
  "Image_new m s color = \<lparr>mode = m, size_px = s, pixels = Blank m s color\<rparr>"

definition convert :: "libs \<Rightarrow> image \<Rightarrow> string \<Rightarrow> exn + image" where
  "convert L img m =
     (case pil_raises L (Call_convert img m) of
        Some e \<Rightarrow> Inl e
      | None \<Rightarrow> Inr \<lparr>mode = m, size_px = size_px img, pixels = Converted m (pixels img)\<rparr>)"

text \<open>\<^verbatim>\<open>img.split()[-1]\<close>: the last band.\<close>

definition split_last :: "libs \<Rightarrow> image \<Rightarrow> exn + picture" where
  "split_last L img =
     (case pil_raises L (Call_split img) of
        Some e \<Rightarrow> Inl e
      | None \<Rightarrow> Inr (LastBand (pixels img)))"

text \<open>\<^verbatim>\<open>base.paste(img, box, mask)\<close> changes \<open>base\<close> in place: its mode and size stay.\<close>

definition paste ::
  "libs \<Rightarrow> image \<Rightarrow> image \<Rightarrow> (int \<times> int) option \<Rightarrow> picture option \<Rightarrow> exn + image" where
  "paste L base img box alpha =
     (case pil_raises L (Call_paste base img) of
        Some e \<Rightarrow> Inl e
      | None \<Rightarrow> Inr (base\<lparr>pixels := Pasted (pixels base) (pixels img) box alpha\<rparr>))"

text \<open>\<^verbatim>\<open>img.thumbnail(box, LANCZOS)\<close> changes \<open>img\<close> in place to the size the library
  computes.\<close>

definition thumbnail :: "libs \<Rightarrow> image \<Rightarrow> size \<Rightarrow> exn + image" where
  "thumbnail L img box =
     (case pil_raises L (Call_thumbnail img box) of
        Some e \<Rightarrow> Inl e
      | None \<Rightarrow>
          (let s = thumbnail_size L (size_px img) box
           in Inr (img\<lparr>size_px := s, pixels := Thumbnailed s (pixels img)\<rparr>)))"

definition save :: "libs \<Rightarrow> image \<Rightarrow> string \<Rightarrow> string \<Rightarrow> int \<Rightarrow> bool \<Rightarrow> exn + saved_image" where
  "save L img path fmt q opt =
     (case pil_raises L (Call_save img path) of
        Some e \<Rightarrow> Inl e
      | None \<Rightarrow> Inr \<lparr>format = fmt, quality = q, optimize = opt, picture = img\<rparr>)"

text \<open>The first block of \<^verbatim>\<open>create_thumbnail\<close>: modes with transparency or a palette are
  pasted on a white background of the image's size, other modes but RGB and L are
  converted.\<close>

definition convert_to_rgb :: "libs \<Rightarrow> image \<Rightarrow> exn + image" where
  "convert_to_rgb L img =
     (if mode img \<in> {''RGBA'', ''LA'', ''P''}
      then (let background = Image_new ''RGB'' (size_px img) (255, 255, 255)
            in bind_exn (if mode img = ''P'' then convert L img ''RGBA'' else Inr img) (\<lambda>img.
               bind_exn (if mode img \<in> {''RGBA'', ''LA''}
                         then bind_exn (split_last L img) (\<lambda>band. Inr (Some band))
                         else Inr None) (\<lambda>alpha.
               paste L background img None alpha)))
      else if mode img \<notin> {''RGB'', ''L''} then convert L img ''RGB''
      else Inr img)"

text \<open>The body of the \<^verbatim>\<open>try\<close> in \<^verbatim>\<open>create_thumbnail\<close>, up to the file \<^verbatim>\<open>thumb.save\<close>
  writes.\<close>

definition thumbnail_try ::
  "libs \<Rightarrow> folder \<Rightarrow> string \<Rightarrow> string \<Rightarrow> exn + saved_image" where
  "thumbnail_try L dir image_path thumbnail_path =
     bind_exn (with_file dir image_path (Image_open L)) (\<lambda>img.
     bind_exn (convert_to_rgb L img) (\<lambda>img.
     bind_exn (thumbnail L img THUMBNAIL_SIZE) (\<lambda>img.
     (let thumb = Image_new ''RGB'' THUMBNAIL_SIZE (255, 255, 255);
          x = (fst THUMBNAIL_SIZE - fst (size_px img)) div 2;
          y = (snd THUMBNAIL_SIZE - snd (size_px img)) div 2
      in bind_exn (paste L thumb img (Some (x, y)) None) (\<lambda>thumb.
         save L thumb thumbnail_path ''JPEG'' 85 True)))))"

text \<open>\<^verbatim>\<open>create_thumbnail\<close>: \<^verbatim>\<open>True\<close> and the thumbnail written, or \<^verbatim>\<open>False\<close> on any
  exception. A save that raises leaves the thumbnail folder as it was.\<close>

definition create_thumbnail ::
  "libs \<Rightarrow> folder \<Rightarrow> (string \<rightharpoonup> saved_image) \<Rightarrow> string \<Rightarrow> string
    \<Rightarrow> bool \<times> (string \<rightharpoonup> saved_image)" where
  "create_thumbnail L dir thumbs image_path thumbnail_path =
     (case thumbnail_try L dir image_path thumbnail_path of
        Inl e \<Rightarrow> (False, thumbs)
      | Inr file \<Rightarrow> (True, thumbs(thumbnail_path \<mapsto> file)))"


subsection \<open>Upload handler\<close>

text \<open>
  What the handler changes: the two folders and the flashed messages. The number of
  \<^verbatim>\<open>uuid4\<close> calls made so far selects the next identifier, and \<open>io_trace\<close> lists the
  file operations in the order the handler reaches them.
\<close>

text \<open>
  The messages the handler flashes, by kind: \<^verbatim>\<open>No files selected\<close>,
  \<^verbatim>\<open>Too many files. Maximum {n} files per upload.\<close>, \<^verbatim>\<open>File type not allowed: {name}\<close>,
  \<^verbatim>\<open>Invalid or potentially dangerous file: {name}\<close>, \<^verbatim>\<open>Error processing file: {name}\<close>,
  \<^verbatim>\<open>Successfully uploaded {n} file(s)!\<close> and
  \<^verbatim>\<open>{n} file(s) failed to upload due to validation errors.\<close>
\<close>

datatype flash_message =
    No_files_selected
  | Too_many_files nat
  | File_type_not_allowed string
  | Invalid_or_dangerous_file string
  | Error_processing_file string
  | Successfully_uploaded nat
  | Failed_to_upload nat

datatype io_call =
    Saving string
  | Validating string
  | Removing string
  | Hashing string
  | Thumbnailing string string

record world =
  uploads :: folder
  thumbnails :: "string \<rightharpoonup> saved_image"
  flashes :: "flash_message list"
  uuid_calls :: nat
  io_trace :: "io_call list"

text \<open>Inside the loop the handler also has its two counters.\<close>

record loop_state = world +
  uploaded_count :: nat
  failed_count :: nat

definition flash :: "flash_message \<Rightarrow> 'a world_scheme \<Rightarrow> 'a world_scheme" where
  "flash message st = st\<lparr>flashes := flashes st @ [message]\<rparr>"

definition reach :: "io_call \<Rightarrow> 'a world_scheme \<Rightarrow> 'a world_scheme" where
  "reach call st = st\<lparr>io_trace := io_trace st @ [call]\<rparr>"

definition thumbnail_name_of :: "string \<Rightarrow> string" where
  "thumbnail_name_of filename =
     (case rsplit1 CHR ''.'' filename of
        [] \<Rightarrow> ''thumb_.jpg''
      | stem # rest \<Rightarrow> ''thumb_'' @ stem @ ''.jpg'')"

text \<open>
  The \<^verbatim>\<open>try\<close> block for one file: the state where it ended, and the exception it
  raised, if any. \<^verbatim>\<open>continue\<close> after a failed validation ends it without one.
\<close>

definition try_block ::
  "libs \<Rightarrow> upfile \<Rightarrow> string \<Rightarrow> string \<Rightarrow> loop_state \<Rightarrow> loop_state \<times> exn option" where
  "try_block L file original_filename filename st =
     (let st1 = reach (Saving filename) st
      in case file_save L file filename of
           SaveFailed e left \<Rightarrow>
             (st1\<lparr>uploads := (case left of
                                 None \<Rightarrow> uploads st1
                               | Some part \<Rightarrow> (uploads st1)(filename \<mapsto> part))\<rparr>,
              Some e)
         | Saved \<Rightarrow>
             (let st2 = reach (Validating filename)
                          (st1\<lparr>uploads := (uploads st1)(filename \<mapsto> fs_stream file)\<rparr>)
              in if \<not> validate_file_content L (uploads st2) filename original_filename
                 then (let st3 = reach (Removing filename) st2
                       in case os_remove (remove_raises L) (uploads st3) filename of
                            Inl e \<Rightarrow> (st3, Some e)
                          | Inr dir \<Rightarrow>
                              (let st4 = flash (Invalid_or_dangerous_file original_filename)
                                           (st3\<lparr>uploads := dir\<rparr>)
                               in (st4\<lparr>failed_count := failed_count st4 + 1\<rparr>, None)))
                 else (let st3 = reach (Hashing filename) st2
                       in case get_file_hash L (uploads st3) filename of
                            Inl e \<Rightarrow> (st3, Some e)
                          | Inr file_hash \<Rightarrow>
                              (case get_file_type filename of
                                 Inl e \<Rightarrow> (st3, Some e)
                               | Inr kind \<Rightarrow>
                                   (let st4 =
                                      (if kind = ''image''
                                       then (let thumbnail_filename = thumbnail_name_of filename;
                                                 st' = reach (Thumbnailing filename thumbnail_filename) st3
                                             in st'\<lparr>thumbnails :=
                                                      snd (create_thumbnail L (uploads st') (thumbnails st')
                                                             filename thumbnail_filename)\<rparr>)
                                       else st3)
                                    in (st4\<lparr>uploaded_count := uploaded_count st4 + 1\<rparr>, None))))))"

text \<open>The \<^verbatim>\<open>except Exception\<close> clause. An exception raised here leaves the handler.\<close>

definition except_clause ::
  "libs \<Rightarrow> string \<Rightarrow> string \<Rightarrow> loop_state \<Rightarrow> exn + loop_state" where
  "except_clause L filename original_filename st =
     bind_exn
       (if os_path_exists (uploads st) filename
        then (let st1 = reach (Removing filename) st
              in bind_exn (os_remove (remove_raises L) (uploads st1) filename) (\<lambda>dir. Inr (st1\<lparr>uploads := dir\<rparr>)))
        else Inr st)
       (\<lambda>st2. let st3 = flash (Error_processing_file original_filename) st2
              in Inr (st3\<lparr>failed_count := failed_count st3 + 1\<rparr>))"

text \<open>The body of \<^verbatim>\<open>for file in files\<close>. A \<^verbatim>\<open>FileStorage\<close> is true when its file name is
  not empty.\<close>

definition process_file :: "libs \<Rightarrow> loop_state \<Rightarrow> upfile \<Rightarrow> exn + loop_state" where
  "process_file L st file =
     (if fs_filename file \<noteq> []
      then (let original_filename = secure_filename L (fs_filename file)
            in if original_filename = []
               then Inr (st\<lparr>failed_count := failed_count st + 1\<rparr>)
               else bind_exn (allowed_file original_filename) (\<lambda>allowed.
                    if \<not> allowed
                    then (let st1 = flash (File_type_not_allowed original_filename) st
                          in Inr (st1\<lparr>failed_count := failed_count st1 + 1\<rparr>))
                    else (let filename = uuid4_hex L (uuid_calls st) @ ''_'' @ original_filename;
                              st1 = st\<lparr>uuid_calls := uuid_calls st + 1\<rparr>
                          in case try_block L file original_filename filename st1 of
                               (st2, None) \<Rightarrow> Inr st2
                             | (st2, Some e) \<Rightarrow> except_clause L filename original_filename st2)))
      else Inr st)"

fun upload_loop :: "libs \<Rightarrow> loop_state \<Rightarrow> upfile list \<Rightarrow> exn + loop_state" where
  "upload_loop L st [] = Inr st"
| "upload_loop L st (file # files) =
     (case process_file L st file of
        Inl e \<Rightarrow> Inl e
      | Inr st1 \<Rightarrow> upload_loop L st1 files)"

definition start_loop :: "world \<Rightarrow> loop_state" where
  "start_loop w =
     \<lparr>uploads = uploads w, thumbnails = thumbnails w, flashes = flashes w,
      uuid_calls = uuid_calls w, io_trace = io_trace w,
      uploaded_count = 0, failed_count = 0\<rparr>"

definition world_of :: "loop_state \<Rightarrow> world" where
  "world_of st =
     \<lparr>uploads = uploads st, thumbnails = thumbnails st, flashes = flashes st,
      uuid_calls = uuid_calls st, io_trace = io_trace st\<rparr>"

datatype response = Redirect_to_request_url | Redirect_to_index

text \<open>\<^verbatim>\<open>upload_files\<close>; \<open>None\<close> for the files when the form has no field \<^verbatim>\<open>files\<close>.\<close>

definition upload_files :: "libs \<Rightarrow> world \<Rightarrow> upfile list option \<Rightarrow> exn + world \<times> response" where
  "upload_files L w request_files =
     (case request_files of
        None \<Rightarrow> Inr (flash No_files_selected w, Redirect_to_request_url)
      | Some files \<Rightarrow>
          if length files > MAX_FILES_PER_REQUEST
          then Inr (flash (Too_many_files MAX_FILES_PER_REQUEST) w, Redirect_to_request_url)
          else bind_exn (upload_loop L (start_loop w) files) (\<lambda>st.
               let w1 = world_of st;
                   w2 = (if uploaded_count st > 0
                         then flash (Successfully_uploaded (uploaded_count st)) w1 else w1);
                   w3 = (if failed_count st > 0
                         then flash (Failed_to_upload (failed_count st)) w2 else w2)
               in Inr (w3, Redirect_to_index)))"


subsection \<open>Gallery\<close>

text \<open>The dictionary \<^verbatim>\<open>index\<close> builds for a file.\<close>

record file_info =
  info_name :: string
  info_type :: string
  upload_time :: string
  has_thumbnail :: bool
  thumbnail_name :: "string option"

text \<open>
  The loop of \<^verbatim>\<open>index\<close> over \<^verbatim>\<open>os.listdir\<close>: the listing gives the names in the order
  the system lists them, each with the time \<^verbatim>\<open>os.path.getctime\<close> reports.
\<close>

fun index_loop ::
  "libs \<Rightarrow> (string \<rightharpoonup> saved_image) \<Rightarrow> (string \<times> int) list \<Rightarrow> exn + file_info list" where
  "index_loop L thumbs [] = Inr []"
| "index_loop L thumbs ((filename, ctime) # listing) =
     bind_exn (allowed_file filename) (\<lambda>allowed.
       if allowed
       then bind_exn (get_file_type filename) (\<lambda>file_type.
              let thumbnail_name = (if file_type = ''image''
                                    then Some (thumbnail_name_of filename) else None);
                  has_thumbnail = (case thumbnail_name of
                                     None \<Rightarrow> False
                                   | Some n \<Rightarrow> os_path_exists thumbs n);
                  file_info = \<lparr>info_name = filename, info_type = file_type,
                               upload_time = strftime_minute L ctime,
                               has_thumbnail = has_thumbnail,
                               thumbnail_name = thumbnail_name\<rparr>
              in bind_exn (index_loop L thumbs listing) (\<lambda>files. Inr (file_info # files)))
       else index_loop L thumbs listing)"

text \<open>\<^verbatim>\<open>list.sort(key=..., reverse=True)\<close>: descending by key, and stable, so that items
  with equal keys stay in their order.\<close>

definition sort_reverse :: "('a \<Rightarrow> 'k::linorder) \<Rightarrow> 'a list \<Rightarrow> 'a list" where
  "sort_reverse key xs = rev (sort_key key (rev xs))"

text \<open>\<^verbatim>\<open>index\<close>: the list handed to the template.\<close>

definition index ::
  "libs \<Rightarrow> (string \<rightharpoonup> saved_image) \<Rightarrow> (string \<times> int) list \<Rightarrow> exn + file_info list" where
  "index L thumbs listing =
     bind_exn (index_loop L thumbs listing) (\<lambda>files. Inr (sort_reverse upload_time files))"

subsection \<open>Notions for stating the handler's properties\<close>

text \<open>The extension of a name: the text after its last dot, if it has a dot.\<close>

definition extension_of :: "string \<Rightarrow> string option" where
  "extension_of name =
     (if CHR ''.'' \<in> set name
      then Some (rev (takeWhile (\<lambda>c. c \<noteq> CHR ''.'') (rev name)))
      else None)"

text \<open>The name under which the handler stores a file that it takes up in state \<open>st\<close>.\<close>

definition stored_name :: "libs \<Rightarrow> loop_state \<Rightarrow> upfile \<Rightarrow> string" where
  "stored_name L st file =
     uuid4_hex L (uuid_calls st) @ ''_'' @ secure_filename L (fs_filename file)"

text \<open>A file reaches the save step when it is not skipped and its sanitised name has an
  allowed extension.\<close>

definition reaches_save :: "libs \<Rightarrow> upfile \<Rightarrow> bool" where
  "reaches_save L file =
     (fs_filename file \<noteq> [] \<and> secure_filename L (fs_filename file) \<noteq> [] \<and>
      allowed_file (secure_filename L (fs_filename file)) = Inr True)"

text \<open>The per-file failures after that: the save raises, the content does not validate,
  or hashing the stored file raises.\<close>

definition file_fails :: "libs \<Rightarrow> loop_state \<Rightarrow> upfile \<Rightarrow> bool" where
  "file_fails L st file =
     (let filename = stored_name L st file;
          dir = (uploads st)(filename \<mapsto> fs_stream file)
      in file_save L file filename \<noteq> Saved \<or>
         \<not> validate_file_content L dir filename (secure_filename L (fs_filename file)) \<or>
         isl (get_file_hash L dir filename))"



subsection \<open>Sample library behaviour\<close>

text \<open>
  For the examples below: what the libraries return on the inputs the examples use.
  \<open>1700000000\<close> is 2023-11-14 22:13:20 UTC.
\<close>

definition sample_secure_filename :: "string \<Rightarrow> string" where
  "sample_secure_filename s =
     (if s = ''my photo.gif'' then ''my_photo.gif''
      else if s \<in> {''clip.avi'', ''notes.txt'', ''README'', ''broken.gif'', ''big.gif''} then s
      else [])"

definition sample_uuid4_hex :: "nat \<Rightarrow> string" where
  "sample_uuid4_hex n =
     (if n = 0 then ''0f8fad5bd9cb469fa16570867728950e''
      else if n = 1 then ''7c9e6679742540de944be07fc1f90ae7''
      else if n = 2 then ''3f2504e04f8941d39a0c0305e82c3301''
      else ''9b2e7c1a5d4f4e0b8a6c2d1f0e3b4a59'')"

definition sample_file_save :: "upfile \<Rightarrow> string \<Rightarrow> save_result" where
  "sample_file_save file path =
     (if fs_filename file = ''big.gif'' then SaveFailed OSError (Some (take 4 (fs_stream file)))
      else Saved)"

definition sample_magic_from_file :: "bytes \<Rightarrow> exn + string" where
  "sample_magic_from_file b =
     (if prefix ''GIF89a'' b then Inr ''image/gif''
      else if prefix ''RIFF'' b then Inr ''video/x-msvideo''
      else if prefix ''%PDF'' b then Inr ''application/pdf''
      else if b = [] then Inr ''application/x-empty''
      else Inr ''text/plain'')"

definition sample_image_verify :: "bytes \<Rightarrow> exn + unit" where
  "sample_image_verify b =
     (if b = ''GIF89a;'' then Inr ()
      else Inl (OtherError ''cannot identify image file''))"

definition sample_pil_decode :: "bytes \<Rightarrow> exn + string \<times> size" where
  "sample_pil_decode b =
     (if b = ''GIF89a;'' then Inr (''P'', (1200, 800))
      else Inl (OtherError ''cannot identify image file''))"

text \<open>A size for \<^verbatim>\<open>Image.thumbnail\<close>: an image that fits the box keeps its size;
  otherwise one side becomes the side of the box and the other is scaled in proportion,
  rounded down, and at least 1.\<close>

definition sample_thumbnail_size :: "size \<Rightarrow> size \<Rightarrow> size" where
  "sample_thumbnail_size s box =
     (case (s, box) of
        ((W, H), (bw, bh)) \<Rightarrow>
          if W \<le> bw \<and> H \<le> bh then (W, H)
          else if bh * W \<le> bw * H then (max 1 ((bh * W) div H), bh)
          else (bw, max 1 ((bw * H) div W)))"

definition sample_strftime_minute :: "int \<Rightarrow> string" where
  "sample_strftime_minute t =
     (if t = 1700000000 then ''2023-11-14 22:13''
      else if t = 1700000010 then ''2023-11-14 22:13''
      else if t = 1700000100 then ''2023-11-14 22:15''
      else ''1970-01-01 00:00'')"

definition sample_libs :: libs where
  "sample_libs =
     \<lparr>secure_filename = sample_secure_filename,
      uuid4_hex = sample_uuid4_hex,
      file_save = sample_file_save,
      remove_raises = (\<lambda>path. None),
      magic_from_file = sample_magic_from_file,
      image_verify = sample_image_verify,
      md5_file = (\<lambda>b. Inr ''d41d8cd98f00b204e9800998ecf8427e''),
      pil_decode = sample_pil_decode,
      pil_raises = (\<lambda>call. None),
      thumbnail_size = sample_thumbnail_size,
      strftime_minute = sample_strftime_minute\<rparr>"

text \<open>The same libraries on a system that refuses to remove the uploaded files, as
  when another process holds them open.\<close>

definition locked_libs :: libs where
  "locked_libs = sample_libs\<lparr>remove_raises := (\<lambda>path. Some PermissionError)\<rparr>"

definition empty_world :: world where
  "empty_world =
     \<lparr>uploads = Map.empty, thumbnails = Map.empty, flashes = [], uuid_calls = 0, io_trace = []\<rparr>"


text \<open>A batch of six form entries: a GIF, a text file, a file that is no image behind a
  GIF name, an empty entry, a GIF whose save runs out of space, and an AVI video.\<close>

definition photo_file :: upfile where
  "photo_file = \<lparr>fs_filename = ''my photo.gif'', fs_stream = ''GIF89a;''\<rparr>"

definition notes_file :: upfile where
  "notes_file = \<lparr>fs_filename = ''notes.txt'', fs_stream = ''hello''\<rparr>"

definition broken_file :: upfile where
  "broken_file = \<lparr>fs_filename = ''broken.gif'', fs_stream = ''GIF89a...''\<rparr>"

definition empty_entry :: upfile where
  "empty_entry = \<lparr>fs_filename = [], fs_stream = []\<rparr>"

definition big_file :: upfile where
  "big_file = \<lparr>fs_filename = ''big.gif'', fs_stream = ''GIF89a;''\<rparr>"

definition clip_file :: upfile where
  "clip_file = \<lparr>fs_filename = ''clip.avi'', fs_stream = ''RIFF....AVI ''\<rparr>"

definition sample_batch :: "upfile list" where
  "sample_batch = [photo_file, notes_file, broken_file, empty_entry, big_file, clip_file]"


subsection \<open>Extensions and media kinds\<close>

lemma allowed_file_dot:
  "CHR ''.'' \<in> set filename \<Longrightarrow>
   allowed_file filename =
     Inr (lower (rev (takeWhile (\<lambda>x. x \<noteq> CHR ''.'') (rev filename))) \<in> ALLOWED_EXTENSIONS)"
  by (simp add: allowed_file_def py_index_def rsplit1_def)

lemma allowed_file_no_dot: "CHR ''.'' \<notin> set filename \<Longrightarrow> allowed_file filename = Inr False"
  by (simp add: allowed_file_def)

lemma get_file_type_dot:
  "CHR ''.'' \<in> set filename \<Longrightarrow>
   get_file_type filename =
     (let extension = lower (rev (takeWhile (\<lambda>x. x \<noteq> CHR ''.'') (rev filename)))
      in if extension \<in> {''png'', ''jpg'', ''jpeg'', ''gif''} then Inr ''image''
         else if extension \<in> {''mp4'', ''mov'', ''avi'', ''mkv'', ''webm''} then Inr ''video''
         else Inr ''unknown'')"
  by (simp add: get_file_type_def py_index_def rsplit1_def)

lemma get_file_type_no_dot:
  "CHR ''.'' \<notin> set filename \<Longrightarrow> get_file_type filename = Inl IndexError"
  by (simp add: get_file_type_def py_index_def rsplit1_def)

lemma allowed_file_total: "allowed_file filename \<noteq> Inl e"
  by (cases "CHR ''.'' \<in> set filename") (simp_all add: allowed_file_dot allowed_file_no_dot)

lemma allowed_file_cases: "allowed_file filename = Inr True \<or> allowed_file filename = Inr False"
  by (cases "CHR ''.'' \<in> set filename") (auto simp: allowed_file_dot allowed_file_no_dot)

text \<open>
  C10. A file name that \<open>allowed_file\<close> accepts contains a dot, so the extension lookup
  of \<open>get_file_type\<close> is defined there, and its result is \<open>image\<close> or \<open>video\<close>. The result
  \<open>unknown\<close> and the IndexError of the lookup arise only for names that \<open>allowed_file\<close>
  rejects.
\<close>

theorem allowed_file_get_file_type:
  "(allowed_file filename = Inr True \<longrightarrow>
      CHR ''.'' \<in> set filename \<and>
      (get_file_type filename = Inr ''image'' \<or> get_file_type filename = Inr ''video'')) \<and>
   (get_file_type filename = Inr ''unknown'' \<or> (\<exists>e. get_file_type filename = Inl e) \<longrightarrow>
      allowed_file filename = Inr False)"
proof (cases "CHR ''.'' \<in> set filename")
  case True
  then show ?thesis
    by (simp add: allowed_file_dot get_file_type_dot ALLOWED_EXTENSIONS_def Let_def)
next
  case False
  then show ?thesis
    by (simp add: allowed_file_no_dot get_file_type_no_dot)
qed

theorem allowed_file_get_file_type_witness:
  "allowed_file ''a1_Photo.JPG'' = Inr True \<and> get_file_type ''a1_Photo.JPG'' = Inr ''image'' \<and>
   get_file_type ''notes.txt'' = Inr ''unknown'' \<and> allowed_file ''notes.txt'' = Inr False \<and>
   get_file_type ''README'' = Inl IndexError \<and> allowed_file ''README'' = Inr False"
proof -
  have photo: "allowed_file ''a1_Photo.JPG'' = Inr True"
    by code_simp
  have photo_kind: "get_file_type ''a1_Photo.JPG'' = Inr ''image''"
    by code_simp
  have text_file: "get_file_type ''notes.txt'' = Inr ''unknown''"
    by code_simp
  have readme: "get_file_type ''README'' = Inl IndexError"
    by code_simp
  show ?thesis
    using allowed_file_get_file_type [of "''a1_Photo.JPG''"]
      allowed_file_get_file_type [of "''notes.txt''"]
      allowed_file_get_file_type [of "''README''"]
      photo photo_kind text_file readme
    by blast
qed

subsection \<open>The resolver against its specification\<close>

lemma fst_when_truthy: "fst (when_truthy x A B) = when_truthy x (\<lambda>v. fst (A v)) (fst B)"
  by (simp add: when_truthy_def split: option.splits)

lemma client_ip_cascade:
  "fst (get_real_client_ip ipa req) =
     when_truthy (headers req ''CF-Connecting-IPv6'') (simplify_ipv6 ipa)
       (when_truthy (headers req ''CF-Connecting-IP'') (extract_best_ip ipa)
         (when_truthy (headers req ''X-Forwarded-For'') (extract_best_ip ipa)
           (when_truthy (headers req ''X-Real-IP'') (extract_best_ip ipa)
             (when_truthy (remote_addr req) (simplify_ipv6 ipa) ''unknown''))))"
  unfolding get_real_client_ip_def Let_def fst_when_truthy fst_conv ..

lemma when_truthy_if:
  "when_truthy x A B = (if present x then (case x of Some v \<Rightarrow> A v | None \<Rightarrow> B) else B)"
  by (simp add: when_truthy_def present_def split: option.splits)

lemma first_pass_find:
  "first_pass ipa ips = find (\<lambda>e. \<not> is_ipv6 ipa e) (filter (\<lambda>e. e \<noteq> []) ips)"
  by (induction ips) simp_all

lemma second_pass_first:
  "second_pass ipa ips =
     (case filter (\<lambda>e. e \<noteq> []) ips of [] \<Rightarrow> None | e # es \<Rightarrow> Some (simplify_ipv6 ipa e))"
  by (induction ips) simp_all

lemma extract_best_ip_spec: "extract_best_ip ipa s = spec_list_choice ipa s"
proof (cases "s = []")
  case True
  then show ?thesis
    by (simp add: extract_best_ip_def spec_list_choice_def list_entries_def strip_def)
next
  case False
  then show ?thesis
    by (simp add: extract_best_ip_def spec_list_choice_def list_entries_def first_pass_find
        second_pass_first Let_def split: option.splits list.splits)
qed

lemma not_present_None: "\<not> present None"
  by (simp add: present_def)

lemma present_Some: "present (Some v) = (v \<noteq> [])"
  by (simp add: present_def)


lemma first_present_decides:
  assumes "find (\<lambda>src. present (source_value req src)) priority_order = Some src"
    and "source_value req src = Some v"
  shows "fst (get_real_client_ip ipa req) =
           (if is_list_source src then extract_best_ip ipa v else simplify_ipv6 ipa v)"
proof -
  have here: "present (Some v)"
    using assms by (auto simp: find_Some_iff)
  show ?thesis
  proof (cases src)
    case CF_Connecting_IPv6
    with assms here show ?thesis
      unfolding client_ip_cascade by (simp add: when_truthy_if)
  next
    case CF_Connecting_IP
    with assms here show ?thesis
      unfolding client_ip_cascade
      by (simp add: priority_order_def when_truthy_if split: if_splits)
  next
    case X_Forwarded_For
    with assms here show ?thesis
      unfolding client_ip_cascade
      by (simp add: priority_order_def when_truthy_if split: if_splits)
  next
    case X_Real_IP
    with assms here show ?thesis
      unfolding client_ip_cascade
      by (simp add: priority_order_def when_truthy_if split: if_splits)
  next
    case Socket_Address
    with assms here show ?thesis
      unfolding client_ip_cascade
      by (simp add: priority_order_def when_truthy_if split: if_splits)
  qed
qed


lemma parse_failure_caught:
  "ipa s = Inl err \<Longrightarrow> \<not> is_ipv6 ipa s \<and> simplify_ipv6 ipa s = s"
  by (simp add: is_ipv6_def simplify_ipv6_def)

lemma find_not_ipv6_malformed:
  "\<forall>e\<in>set es. isl (ipa e) \<Longrightarrow>
   find (\<lambda>e. \<not> is_ipv6 ipa e) es = (case es of [] \<Rightarrow> None | e # es' \<Rightarrow> Some e)"
  by (cases es) (auto simp: is_ipv6_def isl_def)

lemma spec_list_choice_malformed:
  "\<forall>e\<in>set (list_entries v). isl (ipa e) \<Longrightarrow>
   spec_list_choice ipa v = (case list_entries v of [] \<Rightarrow> ''unknown'' | e # es \<Rightarrow> e)"
  by (simp add: spec_list_choice_def find_not_ipv6_malformed split: list.splits)



text \<open>
  C7, as amended. No exception leaves the resolver: a failure of the parser is caught in
  \<open>is_ipv6\<close> and \<open>simplify_ipv6\<close>, which answer \<open>False\<close> and the string itself. The
  resolver does not fall through from a present source: when the entries of the first
  present source are all malformed, the result is the first non-empty entry unchanged
  (\<open>unknown\<close> for a list with no entry; the value itself for CF-Connecting-IPv6 and the
  socket address), whatever the later sources hold.
\<close>

theorem resolver_no_fall_through:
  assumes "find (\<lambda>src. present (source_value req src)) priority_order = Some src"
    and "source_value req src = Some v"
    and "if is_list_source src then \<forall>e\<in>set (list_entries v). isl (ipa e) else isl (ipa v)"
  shows "(\<forall>s. isl (ipa s) \<longrightarrow> \<not> is_ipv6 ipa s \<and> simplify_ipv6 ipa s = s) \<and>
         fst (get_real_client_ip ipa req) =
           (if is_list_source src
            then (case list_entries v of [] \<Rightarrow> ''unknown'' | e # es \<Rightarrow> e)
            else v)"
proof
  show "\<forall>s. isl (ipa s) \<longrightarrow> \<not> is_ipv6 ipa s \<and> simplify_ipv6 ipa s = s"
    using parse_failure_caught by (auto simp: isl_def)
next
  show "fst (get_real_client_ip ipa req) =
           (if is_list_source src
            then (case list_entries v of [] \<Rightarrow> ''unknown'' | e # es \<Rightarrow> e)
            else v)"
  proof (cases "is_list_source src")
    case True
    with assms(3)
    have "extract_best_ip ipa v = (case list_entries v of [] \<Rightarrow> ''unknown'' | e # es \<Rightarrow> e)"
      by (simp add: extract_best_ip_spec spec_list_choice_malformed)
    with True show ?thesis
      using first_present_decides [OF assms(1,2), of ipa] by simp
  next
    case False
    with assms(3) obtain err where "ipa v = Inl err"
      by (auto simp: isl_def)
    then have "simplify_ipv6 ipa v = v"
      by (simp add: parse_failure_caught)
    with False show ?thesis
      using first_present_decides [OF assms(1,2), of ipa] by simp
  qed
qed

theorem resolver_no_fall_through_witness:
  "fst (get_real_client_ip sample_ip_address
     \<lparr>headers = [''X-Forwarded-For'' \<mapsto> ''not-an-ip, bogus'', ''X-Real-IP'' \<mapsto> ''203.0.113.9''],
      remote_addr = None\<rparr>) = ''not-an-ip''"
proof -
  let ?req = "\<lparr>headers = [''X-Forwarded-For'' \<mapsto> ''not-an-ip, bogus'', ''X-Real-IP'' \<mapsto> ''203.0.113.9''],
      remote_addr = None\<rparr>"
  have entries: "list_entries ''not-an-ip, bogus'' = [''not-an-ip'', ''bogus'']"
    by (simp add: list_entries_def strip_def is_space_def)
  have first: "find (\<lambda>src. present (source_value ?req src)) priority_order = Some X_Forwarded_For"
    by (simp add: priority_order_def present_def)
  have val: "source_value ?req X_Forwarded_For = Some ''not-an-ip, bogus''"
    by simp
  have bad: "if is_list_source X_Forwarded_For
             then \<forall>e\<in>set (list_entries ''not-an-ip, bogus''). isl (sample_ip_address e)
             else isl (sample_ip_address ''not-an-ip, bogus'')"
    by (simp add: entries sample_ip_address_def)
  show ?thesis
    using resolver_no_fall_through [OF first val bad] by (simp add: entries)
qed


text \<open>
  The claim as first stated fails here: X-Forwarded-For holds one malformed entry and
  X-Real-IP a proper address; the malformed entry is returned.
\<close>

theorem resolver_no_fall_through_counterexample:
  "sample_ip_address ''not-an-ip'' = Inl ValueError \<and>
   sample_ip_address ''203.0.113.9'' = Inr IPv4Address \<and>
   fst (get_real_client_ip sample_ip_address
     \<lparr>headers = [''X-Forwarded-For'' \<mapsto> ''not-an-ip'', ''X-Real-IP'' \<mapsto> ''203.0.113.9''],
      remote_addr = None\<rparr>) = ''not-an-ip''"
  by (simp add: get_real_client_ip_def when_truthy_def extract_best_ip_def strip_def is_space_def
      is_ipv6_def sample_ip_address_def Let_def)





subsection \<open>Content validation\<close>

lemma allowed_mime_kind:
  "m \<in> ALLOWED_MIMETYPES \<Longrightarrow> startswith m ''image/'' \<noteq> startswith m ''video/''"
  by (auto simp: ALLOWED_MIMETYPES_def startswith_def)

text \<open>
  C1. \<open>validate_file_content\<close> passes exactly when the MIME type sniffed from the file's
  bytes is in the allowed set and, for an image type, the image opens and verifies. An
  allowed video type passes on the MIME check alone. An exception while sniffing or
  while verifying gives \<open>False\<close>; the function has no other result than a truth value.
\<close>

theorem validate_file_content_iff:
  "(validate_file_content L dir file_path filename \<longleftrightarrow>
      (\<exists>mime_type. with_file dir file_path (magic_from_file L) = Inr mime_type \<and>
         mime_type \<in> ALLOWED_MIMETYPES \<and>
         (startswith mime_type ''image/'' \<longrightarrow>
            with_file dir file_path (image_verify L) = Inr ()))) \<and>
   (\<forall>mime_type. with_file dir file_path (magic_from_file L) = Inr mime_type \<and>
      mime_type \<in> ALLOWED_MIMETYPES \<and> startswith mime_type ''video/'' \<longrightarrow>
      validate_file_content L dir file_path filename) \<and>
   ((\<exists>e. with_file dir file_path (magic_from_file L) = Inl e) \<longrightarrow>
      \<not> validate_file_content L dir file_path filename) \<and>
   (\<forall>mime_type. with_file dir file_path (magic_from_file L) = Inr mime_type \<and>
      startswith mime_type ''image/'' \<and> (\<exists>e. with_file dir file_path (image_verify L) = Inl e) \<longrightarrow>
      \<not> validate_file_content L dir file_path filename)"
proof (cases "with_file dir file_path (magic_from_file L)")
  case (Inl e)
  then show ?thesis
    by (simp add: validate_file_content_def)
next
  case (Inr m)
  show ?thesis
  proof (cases "m \<in> ALLOWED_MIMETYPES")
    case False
    with Inr show ?thesis
      by (simp add: validate_file_content_def)
  next
    case True
    from allowed_mime_kind [OF True] True Inr show ?thesis
      by (cases "with_file dir file_path (image_verify L)")
         (auto simp: validate_file_content_def)
  qed
qed

theorem validate_file_content_iff_witness:
  "validate_file_content sample_libs [''v.avi'' \<mapsto> ''RIFF....AVI ''] ''v.avi'' ''clip.avi'' \<and>
   validate_file_content sample_libs [''g.gif'' \<mapsto> ''GIF89a;''] ''g.gif'' ''my_photo.gif'' \<and>
   \<not> validate_file_content sample_libs [''g.gif'' \<mapsto> ''GIF89a...''] ''g.gif'' ''broken.gif'' \<and>
   \<not> validate_file_content sample_libs Map.empty ''g.gif'' ''gone.gif''"
proof -
  have video: "with_file [''v.avi'' \<mapsto> ''RIFF....AVI ''] ''v.avi'' (magic_from_file sample_libs)
      = Inr ''video/x-msvideo''"
    by (simp add: with_file_def sample_libs_def sample_magic_from_file_def)
  have video_ok: "''video/x-msvideo'' \<in> ALLOWED_MIMETYPES \<and> startswith ''video/x-msvideo'' ''video/''"
    by (simp add: ALLOWED_MIMETYPES_def startswith_def)
  have gif: "with_file [''g.gif'' \<mapsto> ''GIF89a;''] ''g.gif'' (magic_from_file sample_libs) = Inr ''image/gif''"
    by (simp add: with_file_def sample_libs_def sample_magic_from_file_def)
  have gif_ok: "''image/gif'' \<in> ALLOWED_MIMETYPES \<and> startswith ''image/gif'' ''image/''"
    by (simp add: ALLOWED_MIMETYPES_def startswith_def)
  have gif_verified: "with_file [''g.gif'' \<mapsto> ''GIF89a;''] ''g.gif'' (image_verify sample_libs) = Inr ()"
    by (simp add: with_file_def sample_libs_def sample_image_verify_def)
  have broken: "with_file [''g.gif'' \<mapsto> ''GIF89a...''] ''g.gif'' (magic_from_file sample_libs)
      = Inr ''image/gif''"
    by (simp add: with_file_def sample_libs_def sample_magic_from_file_def)
  have broken_raises: "with_file [''g.gif'' \<mapsto> ''GIF89a...''] ''g.gif'' (image_verify sample_libs)
      = Inl (OtherError ''cannot identify image file'')"
    by (simp add: with_file_def sample_libs_def sample_image_verify_def)
  have gone: "with_file Map.empty ''g.gif'' (magic_from_file sample_libs) = Inl FileNotFoundError"
    by (simp add: with_file_def)
  from validate_file_content_iff [of sample_libs "[''v.avi'' \<mapsto> ''RIFF....AVI '']" "''v.avi''" "''clip.avi''"]
    video video_ok
  have one: "validate_file_content sample_libs [''v.avi'' \<mapsto> ''RIFF....AVI ''] ''v.avi'' ''clip.avi''"
    by blast
  from validate_file_content_iff [of sample_libs "[''g.gif'' \<mapsto> ''GIF89a;'']" "''g.gif''" "''my_photo.gif''"]
    gif gif_ok gif_verified
  have two: "validate_file_content sample_libs [''g.gif'' \<mapsto> ''GIF89a;''] ''g.gif'' ''my_photo.gif''"
    by blast
  from validate_file_content_iff [of sample_libs "[''g.gif'' \<mapsto> ''GIF89a...'']" "''g.gif''" "''broken.gif''"]
    broken gif_ok broken_raises
  have three: "\<not> validate_file_content sample_libs [''g.gif'' \<mapsto> ''GIF89a...''] ''g.gif'' ''broken.gif''"
    by blast
  from validate_file_content_iff [of sample_libs Map.empty "''g.gif''" "''gone.gif''"] gone
  have four: "\<not> validate_file_content sample_libs Map.empty ''g.gif'' ''gone.gif''"
    by blast
  from one two three four show ?thesis
    by blast
qed

subsection \<open>One file in the upload loop\<close>

lemma uploads_reach [simp]: "uploads (reach c st) = uploads st"
  and thumbnails_reach [simp]: "thumbnails (reach c st) = thumbnails st"
  and flashes_reach [simp]: "flashes (reach c st) = flashes st"
  and uuid_calls_reach [simp]: "uuid_calls (reach c st) = uuid_calls st"
  by (simp_all add: reach_def)

lemma counts_reach [simp]:
  "uploaded_count (reach c st) = uploaded_count st" "failed_count (reach c st) = failed_count st"
  by (simp_all add: reach_def)

lemma uploads_flash [simp]: "uploads (flash m st) = uploads st"
  and thumbnails_flash [simp]: "thumbnails (flash m st) = thumbnails st"
  and uuid_calls_flash [simp]: "uuid_calls (flash m st) = uuid_calls st"
  and io_trace_flash [simp]: "io_trace (flash m st) = io_trace st"
  by (simp_all add: flash_def)

lemma counts_flash [simp]:
  "uploaded_count (flash m st) = uploaded_count st" "failed_count (flash m st) = failed_count st"
  by (simp_all add: flash_def)

lemma get_file_type_stored:
  assumes "allowed_file original = Inr True"
  shows "\<exists>kind. get_file_type (u @ ''_'' @ original) = Inr kind"
proof -
  from assms have "CHR ''.'' \<in> set original"
    using allowed_file_no_dot by fastforce
  then have "CHR ''.'' \<in> set (u @ ''_'' @ original)"
    by simp
  then show ?thesis
    by (simp add: get_file_type_dot Let_def)
qed

lemma process_file_outcome:
  assumes "reaches_save L file"
    and "remove_raises L (stored_name L st file) = None"
  shows "\<exists>st1. process_file L st file = Inr st1 \<and>
           (if file_fails L st file
            then failed_count st1 = failed_count st + 1 \<and>
                 uploaded_count st1 = uploaded_count st \<and>
                 uploads st1 = (uploads st)(stored_name L st file := None) \<and>
                 thumbnails st1 = thumbnails st
            else uploaded_count st1 = uploaded_count st + 1 \<and>
                 failed_count st1 = failed_count st \<and>
                 uploads st1 = (uploads st)(stored_name L st file \<mapsto> fs_stream file))"
proof -
  let ?orig = "secure_filename L (fs_filename file)"
  let ?name = "stored_name L st file"
  from assms obtain kind where kind: "get_file_type ?name = Inr kind"
    using get_file_type_stored [of ?orig "uuid4_hex L (uuid_calls st)"]
    by (auto simp: reaches_save_def stored_name_def)
  show ?thesis
  proof (cases "file_save L file ?name")
    case (SaveFailed e left)
    with assms show ?thesis
      by (cases left)
        (auto simp: process_file_def try_block_def except_clause_def reaches_save_def
          file_fails_def stored_name_def Let_def bind_exn_def os_remove_def os_path_exists_def)
  next
    case Saved
    show ?thesis
    proof (cases "validate_file_content L ((uploads st)(?name \<mapsto> fs_stream file)) ?name ?orig")
      case False
      with assms Saved show ?thesis
        by (auto simp: process_file_def try_block_def reaches_save_def
            file_fails_def stored_name_def Let_def bind_exn_def os_remove_def os_path_exists_def)
    next
      case True
      show ?thesis
      proof (cases "get_file_hash L ((uploads st)(?name \<mapsto> fs_stream file)) ?name")
        case (Inl e)
        with assms Saved True show ?thesis
          by (auto simp: process_file_def try_block_def except_clause_def reaches_save_def
              file_fails_def stored_name_def Let_def bind_exn_def os_remove_def os_path_exists_def)
      next
        case (Inr h)
        with assms Saved True kind show ?thesis
          by (auto simp: process_file_def try_block_def reaches_save_def
              file_fails_def stored_name_def Let_def bind_exn_def)
      qed
    qed
  qed
qed

lemma allowed_file_extension:
  "allowed_file name =
     Inr (case extension_of name of None \<Rightarrow> False | Some ext \<Rightarrow> lower ext \<in> ALLOWED_EXTENSIONS)"
  by (simp add: extension_of_def allowed_file_dot allowed_file_no_dot)

lemma process_file_rejected:
  assumes "fs_filename file \<noteq> []"
    and "allowed_file (secure_filename L (fs_filename file)) = Inr False"
  shows "process_file L st file =
           Inr (st\<lparr>flashes := flashes st @
                     (if secure_filename L (fs_filename file) = [] then []
                      else [File_type_not_allowed (secure_filename L (fs_filename file))]),
                   failed_count := failed_count st + 1\<rparr>)"
  using assms by (simp add: process_file_def Let_def bind_exn_def flash_def)

lemma process_file_step:
  assumes "remove_raises L (stored_name L st file) = None"
  shows "\<exists>st1. process_file L st file = Inr st1 \<and>
     (if fs_filename file = [] then st1 = st
      else (uploaded_count st1 = uploaded_count st \<and> failed_count st1 = failed_count st + 1 \<and>
            dom (uploads st1) \<subseteq> dom (uploads st)) \<or>
           (uploaded_count st1 = uploaded_count st + 1 \<and> failed_count st1 = failed_count st \<and>
            dom (uploads st1) \<subseteq> insert (stored_name L st file) (dom (uploads st))))"
proof (cases "fs_filename file = []")
  case True
  then show ?thesis
    by (simp add: process_file_def)
next
  case nonempty: False
  show ?thesis
  proof (cases "reaches_save L file")
    case True
    from process_file_outcome [OF True assms] nonempty show ?thesis
      by (cases "file_fails L st file") auto
  next
    case False
    with nonempty have "secure_filename L (fs_filename file) = [] \<or>
        allowed_file (secure_filename L (fs_filename file)) = Inr False"
      using allowed_file_cases [of "secure_filename L (fs_filename file)"]
      by (auto simp: reaches_save_def)
    then show ?thesis
    proof
      assume "secure_filename L (fs_filename file) = []"
      with nonempty show ?thesis
        by (simp add: process_file_def)
    next
      assume "allowed_file (secure_filename L (fs_filename file)) = Inr False"
      from process_file_rejected [OF nonempty this, of st] nonempty show ?thesis
        by simp
    qed
  qed
qed

lemma upload_loop_runs:
  assumes "\<forall>path. remove_raises L path = None"
  shows "\<exists>st'. upload_loop L st files = Inr st' \<and>
     uploaded_count st' + failed_count st' =
       uploaded_count st + failed_count st + length (filter (\<lambda>f. fs_filename f \<noteq> []) files) \<and>
     uploaded_count st \<le> uploaded_count st' \<and>
     finite (dom (uploads st') - dom (uploads st)) \<and>
     card (dom (uploads st') - dom (uploads st)) \<le> uploaded_count st' - uploaded_count st"
proof (induction files arbitrary: st)
  case Nil
  then show ?case by simp
next
  case (Cons f fs)
  obtain st1 where step: "process_file L st f = Inr st1"
    and eff: "if fs_filename f = [] then st1 = st
      else (uploaded_count st1 = uploaded_count st \<and> failed_count st1 = failed_count st + 1 \<and>
            dom (uploads st1) \<subseteq> dom (uploads st)) \<or>
           (uploaded_count st1 = uploaded_count st + 1 \<and> failed_count st1 = failed_count st \<and>
            dom (uploads st1) \<subseteq> insert (stored_name L st f) (dom (uploads st)))"
    using process_file_step [of L st f, OF assms [rule_format]] by blast
  obtain st' where rest: "upload_loop L st1 fs = Inr st'"
    and counts: "uploaded_count st' + failed_count st' =
       uploaded_count st1 + failed_count st1 + length (filter (\<lambda>f. fs_filename f \<noteq> []) fs)"
    and mono: "uploaded_count st1 \<le> uploaded_count st'"
    and fin: "finite (dom (uploads st') - dom (uploads st1))"
    and cardle: "card (dom (uploads st') - dom (uploads st1)) \<le> uploaded_count st' - uploaded_count st1"
    using Cons.IH [of st1] by blast
  have one: "finite (dom (uploads st1) - dom (uploads st)) \<and>
      card (dom (uploads st1) - dom (uploads st)) \<le> uploaded_count st1 - uploaded_count st \<and>
      uploaded_count st \<le> uploaded_count st1"
  proof (cases "dom (uploads st1) \<subseteq> dom (uploads st)")
    case True
    then have "dom (uploads st1) - dom (uploads st) = {}"
      by blast
    then have "finite (dom (uploads st1) - dom (uploads st)) \<and>
        card (dom (uploads st1) - dom (uploads st)) = 0"
      by (metis card.empty finite.emptyI)
    with eff show ?thesis
      by (auto split: if_splits)
  next
    case False
    with eff have up: "uploaded_count st1 = uploaded_count st + 1"
      and sub: "dom (uploads st1) \<subseteq> insert (stored_name L st f) (dom (uploads st))"
      by (auto split: if_splits)
    from sub have "dom (uploads st1) - dom (uploads st) \<subseteq> {stored_name L st f}"
      by blast
    then have "finite (dom (uploads st1) - dom (uploads st)) \<and>
        card (dom (uploads st1) - dom (uploads st)) \<le> 1"
      by (metis card_mono card.empty card_insert_disjoint empty_iff finite.emptyI
          finite.insertI finite_subset One_nat_def)
    with up show ?thesis
      by simp
  qed
  have split: "dom (uploads st') - dom (uploads st) \<subseteq>
      (dom (uploads st') - dom (uploads st1)) \<union> (dom (uploads st1) - dom (uploads st))"
    by blast
  have finite_all: "finite (dom (uploads st') - dom (uploads st))"
    using split fin one by (meson finite_UnI finite_subset)
  have "card (dom (uploads st') - dom (uploads st)) \<le>
      card ((dom (uploads st') - dom (uploads st1)) \<union> (dom (uploads st1) - dom (uploads st)))"
    using split fin one by (meson card_mono finite_UnI)
  also have "\<dots> \<le> card (dom (uploads st') - dom (uploads st1)) + card (dom (uploads st1) - dom (uploads st))"
    by (rule card_Un_le)
  also have "\<dots> \<le> (uploaded_count st' - uploaded_count st1) + (uploaded_count st1 - uploaded_count st)"
    using add_mono [OF cardle conjunct1 [OF conjunct2 [OF one]]] .
  also have "\<dots> = uploaded_count st' - uploaded_count st"
    using mono one by simp
  finally have card_all: "card (dom (uploads st') - dom (uploads st)) \<le> uploaded_count st' - uploaded_count st" .
  have count_all: "uploaded_count st' + failed_count st' =
       uploaded_count st + failed_count st + length (filter (\<lambda>f. fs_filename f \<noteq> []) (f # fs))"
    using counts eff by (auto split: if_splits)
  from step rest count_all mono one finite_all card_all show ?case
    by simp
qed

subsection \<open>Rejected uploads\<close>

text \<open>
  C2. An uploaded file (an entry with a file name) whose sanitised name has no extension,
  or an extension outside the allowed set, is counted as failed and nothing else happens:
  the upload folder, the thumbnails, the trace of file operations (so no save) and the
  identifiers used are as before, and the loop goes on with the next file.
\<close>

theorem disallowed_extension_not_stored:
  assumes "fs_filename file \<noteq> []"
    and "case extension_of (secure_filename L (fs_filename file)) of
           None \<Rightarrow> True
         | Some ext \<Rightarrow> lower ext \<notin> ALLOWED_EXTENSIONS"
  shows "\<exists>st1. process_file L st file = Inr st1 \<and>
           failed_count st1 = failed_count st + 1 \<and>
           uploaded_count st1 = uploaded_count st \<and>
           uploads st1 = uploads st \<and>
           thumbnails st1 = thumbnails st \<and>
           io_trace st1 = io_trace st \<and>
           uuid_calls st1 = uuid_calls st \<and>
           upload_loop L st (file # files) = upload_loop L st1 files"
proof -
  from assms(2) have "allowed_file (secure_filename L (fs_filename file)) = Inr False"
    by (simp add: allowed_file_extension split: option.splits)
  from process_file_rejected [OF assms(1) this, of st] show ?thesis
    by simp
qed

theorem disallowed_extension_not_stored_witness:
  "\<exists>st1. process_file sample_libs (start_loop empty_world) notes_file = Inr st1 \<and>
     failed_count st1 = 1 \<and> uploaded_count st1 = 0 \<and> uploads st1 = Map.empty \<and>
     io_trace st1 = [] \<and>
     upload_loop sample_libs (start_loop empty_world) [notes_file, clip_file]
       = upload_loop sample_libs st1 [clip_file]"
proof -
  have name: "fs_filename notes_file \<noteq> []"
    by (simp add: notes_file_def)
  have ext: "case extension_of (secure_filename sample_libs (fs_filename notes_file)) of
           None \<Rightarrow> True
         | Some ext \<Rightarrow> lower ext \<notin> ALLOWED_EXTENSIONS"
    by code_simp
  from disallowed_extension_not_stored [OF name ext, of "start_loop empty_world" "[clip_file]"]
  show ?thesis
    by (auto simp: start_loop_def empty_world_def simp del: upload_loop.simps)
qed

text \<open>
  C3. A request with more than 10 entries is answered at once: a redirect back with the
  message flashed; no file is stored, and no file operation and no identifier is used.
\<close>

theorem too_many_files_rejected:
  assumes "10 < length files"
  shows "\<exists>w'. upload_files L w (Some files) = Inr (w', Redirect_to_request_url) \<and>
           uploads w' = uploads w \<and>
           thumbnails w' = thumbnails w \<and>
           io_trace w' = io_trace w \<and>
           uuid_calls w' = uuid_calls w \<and>
           flashes w' = flashes w @ [Too_many_files 10]"
  using assms by (simp add: upload_files_def MAX_FILES_PER_REQUEST_def flash_def)

theorem too_many_files_rejected_witness:
  "\<exists>w'. upload_files sample_libs empty_world (Some (replicate 11 photo_file))
           = Inr (w', Redirect_to_request_url) \<and>
         uploads w' = Map.empty \<and> thumbnails w' = Map.empty \<and> io_trace w' = [] \<and>
         flashes w' = [Too_many_files 10]"
  using too_many_files_rejected [of "replicate 11 photo_file" sample_libs empty_world]
  by (auto simp: empty_world_def)

subsection \<open>The thumbnail written\<close>













subsection \<open>Failures inside a batch\<close>

text \<open>
  C4. While \<^verbatim>\<open>os.remove\<close> does not raise, a batch never aborts: the loop ends for every
  list of files, counts every entry with a file name once, and adds at most as many files
  to the upload folder as it counts uploaded (\<open>upload_loop_runs\<close>); a file that failed
  after the save step is counted as failed and removed, and the loop goes on
  (\<open>process_file_outcome\<close>). When \<^verbatim>\<open>os.remove\<close> raises on the stored file, it does so
  inside the \<^verbatim>\<open>except\<close> clause as well, and the exception leaves the handler. Here the
  first file does not validate and the system refuses to remove it: the batch is
  aborted, and the video after it is never taken up.
\<close>

theorem remove_failure_aborts_batch:
  "process_file locked_libs (start_loop empty_world) broken_file = Inl PermissionError \<and>
   upload_loop locked_libs (start_loop empty_world) [broken_file, clip_file]
     = Inl PermissionError \<and>
   upload_files locked_libs empty_world (Some [broken_file, clip_file]) = Inl PermissionError"
proof -
  have one: "case process_file locked_libs (start_loop empty_world) broken_file of
      Inl e \<Rightarrow> e = PermissionError | Inr st \<Rightarrow> False"
    by code_simp
  then have first: "process_file locked_libs (start_loop empty_world) broken_file
      = Inl PermissionError"
    by (simp split: sum.splits)
  then have batch: "upload_loop locked_libs (start_loop empty_world) [broken_file, clip_file]
      = Inl PermissionError"
    by simp
  then have "upload_files locked_libs empty_world (Some [broken_file, clip_file])
      = Inl PermissionError"
    by (simp add: upload_files_def MAX_FILES_PER_REQUEST_def bind_exn_def)
  with first batch show ?thesis
    by simp
qed

subsection \<open>The gallery list\<close>

lemma get_file_type_allowed:
  assumes "allowed_file name = Inr True"
  shows "\<exists>kind. get_file_type name = Inr kind"
proof -
  from assms have "CHR ''.'' \<in> set name"
    using allowed_file_no_dot by fastforce
  then show ?thesis
    by (simp add: get_file_type_dot Let_def)
qed

lemma index_loop_names:
  "\<exists>files. index_loop L thumbs listing = Inr files \<and>
     map info_name files = filter (\<lambda>name. allowed_file name = Inr True) (map fst listing)"
proof (induction listing)
  case Nil
  then show ?case by simp
next
  case (Cons entry listing)
  obtain name ctime where entry: "entry = (name, ctime)"
    by (cases entry)
  from Cons obtain files where rest: "index_loop L thumbs listing = Inr files"
    and names: "map info_name files = filter (\<lambda>name. allowed_file name = Inr True) (map fst listing)"
    by blast
  show ?case
  proof (cases "allowed_file name = Inr True")
    case True
    then obtain kind where "get_file_type name = Inr kind"
      using get_file_type_allowed by blast
    with True entry rest names show ?thesis
      by (simp add: bind_exn_def Let_def)
  next
    case False
    then have "allowed_file name = Inr False"
      using allowed_file_cases by blast
    with entry rest names show ?thesis
      by (simp add: bind_exn_def)
  qed
qed

lemma sort_reverse_descending: "sorted (rev (map key (sort_reverse key xs)))"
  by (simp add: sort_reverse_def rev_map [symmetric])

lemma sort_reverse_mset: "mset (sort_reverse key xs) = mset xs"
  by (simp add: sort_reverse_def)

lemma index_result:
  "\<exists>files. index L thumbs listing = Inr files \<and>
     mset (map info_name files) =
       mset (filter (\<lambda>name. allowed_file name = Inr True) (map fst listing)) \<and>
     sorted (rev (map upload_time files))"
proof -
  obtain files where loop: "index_loop L thumbs listing = Inr files"
    and names: "map info_name files = filter (\<lambda>name. allowed_file name = Inr True) (map fst listing)"
    using index_loop_names by blast
  have "mset (map info_name (sort_reverse upload_time files)) = mset (map info_name files)"
    by (simp add: sort_reverse_mset)
  with loop names show ?thesis
    by (simp add: index_def bind_exn_def sort_reverse_descending)
qed

text \<open>
  C9. The list \<open>index\<close> returns holds exactly the stored files with an allowed extension,
  and it is in descending order of the upload time as displayed, a string to the minute
  (\<open>index_result\<close>). Within one minute the order is that of the directory listing. Here
  \<open>b.png\<close> was created ten seconds after \<open>a.png\<close>, in the same minute, and the listing
  names \<open>a.png\<close> first: the returned list has \<open>a.png\<close> before \<open>b.png\<close>, so it is not in
  descending order of creation time.
\<close>

theorem index_same_minute_order:
  "index sample_libs Map.empty
     [(''a.png'', 1700000000), (''b.png'', 1700000010), (''c.mp4'', 1700000100)] =
   Inr [\<lparr>info_name = ''c.mp4'', info_type = ''video'', upload_time = ''2023-11-14 22:15'',
          has_thumbnail = False, thumbnail_name = None\<rparr>,
        \<lparr>info_name = ''a.png'', info_type = ''image'', upload_time = ''2023-11-14 22:13'',
          has_thumbnail = False, thumbnail_name = Some ''thumb_a.jpg''\<rparr>,
        \<lparr>info_name = ''b.png'', info_type = ''image'', upload_time = ''2023-11-14 22:13'',
          has_thumbnail = False, thumbnail_name = Some ''thumb_b.jpg''\<rparr>]"
  by code_simp


end
